theory Spec2Isabelle
  imports Complex_Main
begin

section \<open>Sensor data fusion engine (backend/utils/sensor\_fusion.py)\<close>

text \<open>
  A shallow embedding of the classes \<open>SensorReading\<close>, \<open>SensorDataFusion\<close> and
  \<open>RealTimeFusion\<close>. Conventions:
  \<^item> a Python \<open>float\<close> is a \<open>real\<close>: sums, products and quotients are exact, rounding
    is not modelled, and there is no \<open>nan\<close> or infinity among the inputs;
  \<^item> a \<open>datetime\<close> is a naive one (no \<open>tzinfo\<close>), as the clock \<open>datetime.now()\<close> is: an
    \<open>int\<close>, the number of microseconds since the epoch. Two of them compare and
    subtract, and a \<open>timedelta\<close> is their difference. An offset-aware timestamp, which
    Python refuses to compare with or subtract from a naive one, is not a value of this
    model;
  \<^item> a \<open>dict\<close> that the code iterates over is an association list in insertion order
    with distinct keys (Python dictionaries keep insertion order); a \<open>dict\<close> that is only
    looked up is a map;
  \<^item> an exception is the \<open>Inl\<close> of a sum type.
\<close>

subsection \<open>Data model\<close>

text \<open>
  The exceptions: the two that the modelled code can raise itself, \<open>InvalidReading\<close>, which
  the interface description names for a rejected reading and which no line of the source
  raises, and \<open>FittingError\<close> for whatever the interpolation library raises.
\<close>

datatype py_error = ZeroDivisionError | TypeError | InvalidReading | FittingError

text \<open>The values a metadata dictionary holds.\<close>

datatype meta_value = MBool bool | MNum real | MStr string

record SensorReading =
  sensor_id :: string
  sensor_type :: string
  "value" :: real
  unit :: string
  timestamp :: int
  location :: "(real \<times> real) option"
  quality_score :: real
  metadata :: "string \<rightharpoonup> meta_value"

subsection \<open>Grouping by sensor type\<close>

text \<open>
  Every operation starts with the same loop:
  \<^verbatim>\<open>
  sensor_groups = {}
  for reading in readings:
      if reading.sensor_type not in sensor_groups:
          sensor_groups[reading.sensor_type] = []
      sensor_groups[reading.sensor_type].append(reading)
  \<close>
  \<open>group_add\<close> is one iteration: the reading goes to the end of the list stored under its
  type, and a type seen for the first time gets a new entry at the end of the dictionary.
\<close>

fun group_add :: "(string \<times> SensorReading list) list \<Rightarrow> SensorReading \<Rightarrow> (string \<times> SensorReading list) list" where
  "group_add [] reading = [(sensor_type reading, [reading])]"
| "group_add ((k, rs) # groups) reading =
     (if k = sensor_type reading then (k, rs @ [reading]) # groups
      else (k, rs) # group_add groups reading)"

definition sensor_groups :: "SensorReading list \<Rightarrow> (string \<times> SensorReading list) list" where
  "sensor_groups readings = foldl group_add [] readings"

subsection \<open>numpy reductions\<close>

text \<open>
  \<open>np.mean\<close> and \<open>np.std\<close> (population standard deviation, \<open>ddof = 0\<close>). The code calls
  them on the values of a group, which is never empty (lemma \<open>sensor_groups_nonempty\<close>).
\<close>

definition np_mean :: "real list \<Rightarrow> real" where
  "np_mean xs = sum_list xs / real (length xs)"

definition np_std :: "real list \<Rightarrow> real" where
  "np_std xs = sqrt (np_mean (map (\<lambda>x. \<bar>x - np_mean xs\<bar> ^ 2) xs))"

subsection \<open>Anomaly detection\<close>

text \<open>The body of the loop over the groups of \<open>detect_sensor_anomalies\<close>.\<close>

definition type_anomalies :: "real \<Rightarrow> SensorReading list \<Rightarrow> SensorReading list" where
  "type_anomalies threshold_factor type_readings =
     (if length type_readings < 5 then []
      else let values = map value type_readings;
               mean_val = np_mean values;
               std_val = np_std values
           in filter (\<lambda>reading. \<bar>value reading - mean_val\<bar> > threshold_factor * std_val) type_readings)"

definition detect_sensor_anomalies :: "SensorReading list \<Rightarrow> real \<Rightarrow> SensorReading list" where
  "detect_sensor_anomalies readings threshold_factor =
     concat (map (\<lambda>(stype, type_readings). type_anomalies threshold_factor type_readings)
                 (sensor_groups readings))"

subsection \<open>Concrete inputs\<close>

text \<open>A reading of type \<open>soil_moisture\<close> with the given value and quality score 1.\<close>

definition example_reading :: "real \<Rightarrow> SensorReading" where
  "example_reading v = \<lparr>sensor_id = ''s1'', sensor_type = ''soil_moisture'', value = v, unit = ''pct'',
     timestamp = 0, location = None, quality_score = 1, metadata = Map.empty\<rparr>"

subsection \<open>Division\<close>

text \<open>Python's \<open>/\<close> on floats raises \<open>ZeroDivisionError\<close> when the divisor is zero.\<close>

definition py_div :: "real \<Rightarrow> real \<Rightarrow> py_error + real" where
  "py_div a b = (if b = 0 then Inl ZeroDivisionError else Inr (a / b))"

subsection \<open>Kalman filter fusion\<close>

text \<open>
  The two local variables of the loop of \<open>_kalman_filter_fusion\<close>, one update (the loop
  body) and the loop over \<open>readings[1:]\<close>. The process noise is the literal \<open>0.1\<close>.
\<close>

record kalman_state =
  estimate :: real
  estimate_error :: real

definition kalman_update :: "kalman_state \<Rightarrow> SensorReading \<Rightarrow> py_error + kalman_state" where
  "kalman_update s reading =
     (let predicted_estimate = estimate s;
          predicted_error = estimate_error s + 0.1
      in case py_div 1 (quality_score reading) of
           Inl e \<Rightarrow> Inl e
         | Inr measurement_noise \<Rightarrow>
             (case py_div predicted_error (predicted_error + measurement_noise) of
                Inl e \<Rightarrow> Inl e
              | Inr kalman_gain \<Rightarrow>
                  Inr \<lparr>estimate = predicted_estimate + kalman_gain * (value reading - predicted_estimate),
                       estimate_error = (1 - kalman_gain) * predicted_error\<rparr>))"

fun kalman_loop :: "kalman_state \<Rightarrow> SensorReading list \<Rightarrow> py_error + kalman_state" where
  "kalman_loop s [] = Inr s"
| "kalman_loop s (reading # rest) =
     (case kalman_update s reading of Inl e \<Rightarrow> Inl e | Inr s' \<Rightarrow> kalman_loop s' rest)"

definition kalman_init :: "SensorReading \<Rightarrow> kalman_state" where
  "kalman_init first = \<lparr>estimate = value first, estimate_error = 1\<rparr>"

definition kalman_filter_fusion :: "SensorReading list \<Rightarrow> py_error + real" where
  "kalman_filter_fusion readings =
     (case readings of
        [] \<Rightarrow> Inr 0
      | first # rest \<Rightarrow>
          (case kalman_loop (kalman_init first) rest of Inl e \<Rightarrow> Inl e | Inr s \<Rightarrow> Inr (estimate s)))"

subsection \<open>Multi-sensor fusion\<close>

text \<open>\<open>np.median\<close>: the middle element of the sorted values, or the mean of the two middle ones.\<close>

definition np_median :: "real list \<Rightarrow> real" where
  "np_median xs =
     (let s = sort xs; n = length xs
      in if even n then (s ! (n div 2 - 1) + s ! (n div 2)) / 2 else s ! (n div 2))"

text \<open>The branch \<open>fusion_method == 'weighted_average'\<close>.\<close>

definition weighted_average :: "SensorReading list \<Rightarrow> real" where
  "weighted_average type_readings =
     (let numerator = sum_list (map (\<lambda>r. value r * quality_score r) type_readings);
          denominator = sum_list (map quality_score type_readings)
      in if denominator > 0 then numerator / denominator
         else np_mean (map value type_readings))"

text \<open>The body of the loop over the groups: the dispatch on the method name.\<close>

definition fuse_group :: "string \<Rightarrow> SensorReading list \<Rightarrow> py_error + real" where
  "fuse_group fusion_method type_readings =
     (if fusion_method = ''weighted_average'' then Inr (weighted_average type_readings)
      else if fusion_method = ''kalman_filter'' then kalman_filter_fusion type_readings
      else if fusion_method = ''median'' then Inr (np_median (map value type_readings))
      else Inr (np_mean (map value type_readings)))"

fun fuse_groups :: "string \<Rightarrow> (string \<times> SensorReading list) list \<Rightarrow> py_error + (string \<times> real) list" where
  "fuse_groups fusion_method [] = Inr []"
| "fuse_groups fusion_method ((stype, type_readings) # groups) =
     (case fuse_group fusion_method type_readings of
        Inl e \<Rightarrow> Inl e
      | Inr v \<Rightarrow>
          (case fuse_groups fusion_method groups of
             Inl e \<Rightarrow> Inl e
           | Inr fused_values \<Rightarrow> Inr ((stype, v) # fused_values)))"

definition multi_sensor_fusion :: "SensorReading list \<Rightarrow> string \<Rightarrow> py_error + (string \<times> real) list" where
  "multi_sensor_fusion readings fusion_method =
     (if readings = [] then Inr [] else fuse_groups fusion_method (sensor_groups readings))"

subsection \<open>The fusion engine: state and ingestion\<close>

record SensorDataFusion =
  field_id :: int
  sensor_readings :: "SensorReading list"
  fusion_weights :: "string \<rightharpoonup> real"
  calibration_factors :: "string \<rightharpoonup> (string \<rightharpoonup> real)"

definition SensorDataFusion_init :: "int \<Rightarrow> SensorDataFusion" where
  "SensorDataFusion_init fid =
     \<lparr>field_id = fid, sensor_readings = [], fusion_weights = Map.empty, calibration_factors = Map.empty\<rparr>"


definition add_readings :: "SensorDataFusion \<Rightarrow> SensorReading list \<Rightarrow> py_error + SensorDataFusion" where
  "add_readings self readings = Inr (self\<lparr>sensor_readings := sensor_readings self @ readings\<rparr>)"

definition set_fusion_weights :: "SensorDataFusion \<Rightarrow> (string \<rightharpoonup> real) \<Rightarrow> SensorDataFusion" where
  "set_fusion_weights self weights = self\<lparr>fusion_weights := weights\<rparr>"

definition set_calibration_factors :: "SensorDataFusion \<Rightarrow> (string \<rightharpoonup> (string \<rightharpoonup> real)) \<Rightarrow> SensorDataFusion" where
  "set_calibration_factors self factors = self\<lparr>calibration_factors := factors\<rparr>"

subsection \<open>Cleaning\<close>

text \<open>
  \<open>scipy.stats.zscore\<close>: \<open>(x - mean) / std\<close> with the population deviation. On a constant
  list the deviation is zero and every score is \<open>nan\<close>, here \<open>None\<close>; a comparison with
  \<open>nan\<close> is false, so such a reading is not kept.
\<close>

definition zscore :: "real list \<Rightarrow> real option list" where
  "zscore xs =
     (let m = np_mean xs; s = np_std xs
      in map (\<lambda>x. if s = 0 then None else Some ((x - m) / s)) xs)"

text \<open>The body of the loop over the groups of \<open>clean_data\<close>.\<close>

definition clean_group :: "bool \<Rightarrow> real \<Rightarrow> SensorReading list \<Rightarrow> SensorReading list" where
  "clean_group remove_outliers z_threshold readings =
     (let quality_filtered = filter (\<lambda>r. quality_score r \<ge> 0.5) readings
      in if remove_outliers \<and> length quality_filtered > 3 then
           let values = map value quality_filtered;
               z_scores = map (map_option abs) (zscore values)
           in map snd (filter (\<lambda>(z, reading). case z of None \<Rightarrow> False | Some a \<Rightarrow> a < z_threshold)
                              (zip z_scores quality_filtered))
         else quality_filtered)"

definition clean_data :: "SensorDataFusion \<Rightarrow> bool \<Rightarrow> real \<Rightarrow> SensorReading list" where
  "clean_data self remove_outliers z_threshold =
     concat (map (\<lambda>(stype, readings). clean_group remove_outliers z_threshold readings)
                 (sensor_groups (sensor_readings self)))"

subsection \<open>Calibration\<close>

text \<open>
  The body of the loop of \<open>apply_calibration\<close>: the reading itself when its type has no
  entry in \<open>calibration_factors\<close>, and otherwise a new reading built field by field, with
  \<open>slope\<close> and \<open>offset\<close> defaulting to 1 and 0 (\<open>factors.get(key, default)\<close> is
  \<open>factor_get\<close>).
\<close>

definition factor_get :: "(string \<rightharpoonup> real) \<Rightarrow> string \<Rightarrow> real \<Rightarrow> real" where
  "factor_get factors key dflt = (case factors key of None \<Rightarrow> dflt | Some x \<Rightarrow> x)"

definition calibrate :: "(string \<rightharpoonup> (string \<rightharpoonup> real)) \<Rightarrow> SensorReading \<Rightarrow> SensorReading" where
  "calibrate factors_of reading =
     (case factors_of (sensor_type reading) of
        None \<Rightarrow> reading
      | Some factors \<Rightarrow>
          (let slope = factor_get factors ''slope'' 1;
               offset = factor_get factors ''offset'' 0;
               calibrated_value = slope * value reading + offset
           in \<lparr>sensor_id = sensor_id reading,
               sensor_type = sensor_type reading,
               value = calibrated_value,
               unit = unit reading,
               timestamp = timestamp reading,
               location = location reading,
               quality_score = quality_score reading,
               metadata = (metadata reading)(''calibrated'' \<mapsto> MBool True)\<rparr>))"

definition apply_calibration :: "SensorDataFusion \<Rightarrow> SensorReading list \<Rightarrow> SensorReading list" where
  "apply_calibration self readings = map (calibrate (calibration_factors self)) readings"

text \<open>
  The same function on an explicit object store, to tell a new object from an old one: the
  store is the list of all reading objects, a reference is an index into it, and the
  constructor call \<open>SensorReading(...)\<close> allocates at the end. A reading whose type has no
  factor is passed on as the same reference.
\<close>

fun apply_calibration_store ::
  "(string \<rightharpoonup> (string \<rightharpoonup> real)) \<Rightarrow> SensorReading list \<Rightarrow> nat list \<Rightarrow> SensorReading list \<times> nat list" where
  "apply_calibration_store factors_of store [] = (store, [])"
| "apply_calibration_store factors_of store (ref # refs) =
     (if sensor_type (store ! ref) \<in> dom factors_of then
        (let store' = store @ [calibrate factors_of (store ! ref)];
             (store'', out) = apply_calibration_store factors_of store' refs
         in (store'', length store # out))
      else
        (let (store'', out) = apply_calibration_store factors_of store refs
         in (store'', ref # out)))"

subsection \<open>Fusion report\<close>

text \<open>
  The report dictionary, one record field per key; \<open>spatial_coverage\<close> is created empty and
  never filled. \<open>datetime.now()\<close> is the argument \<open>now\<close>. A \<open>timedelta\<close> is a number of
  microseconds, and \<open>total_seconds()\<close> divides it by \<open>10^6\<close>.
\<close>

record type_stats =
  stat_count :: nat
  stat_mean :: real
  stat_std :: real
  stat_min :: real
  stat_max :: real
  stat_unit :: string

record quality_stats =
  avg_quality :: real
  min_quality :: real
  high_quality_percentage :: real

record coverage_stats =
  start_time :: int
  end_time :: int
  duration_hours :: real
  reading_frequency_minutes :: real

record anomaly_entry =
  anomaly_sensor_id :: string
  anomaly_sensor_type :: string
  anomaly_value :: real
  anomaly_timestamp :: int

record fusion_report =
  report_timestamp :: int
  report_field_id :: int
  total_readings :: nat
  sensor_types :: "(string \<times> type_stats) list"
  quality_summary :: "(string \<times> quality_stats) list"
  temporal_coverage :: "(string \<times> coverage_stats) list"
  spatial_coverage :: "(string \<times> unit) list"
  anomalies :: "anomaly_entry list"
  fusion_summary :: "(string \<times> real) list"

definition total_seconds :: "int \<Rightarrow> real" where
  "total_seconds delta = real_of_int delta / 1000000"

definition basic_statistics :: "SensorReading list \<Rightarrow> type_stats" where
  "basic_statistics type_readings =
     (let values = map value type_readings
      in \<lparr>stat_count = length type_readings,
          stat_mean = np_mean values,
          stat_std = np_std values,
          stat_min = Min (set values),
          stat_max = Max (set values),
          stat_unit = unit (hd type_readings)\<rparr>)"

definition quality_statistics :: "SensorReading list \<Rightarrow> quality_stats" where
  "quality_statistics type_readings =
     (let count = length type_readings;
          quality_scores = map quality_score type_readings
      in \<lparr>avg_quality = np_mean quality_scores,
          min_quality = Min (set quality_scores),
          high_quality_percentage =
            real (length (filter (\<lambda>q. q \<ge> 0.8) quality_scores)) / real count * 100\<rparr>)"

definition coverage_statistics :: "SensorReading list \<Rightarrow> coverage_stats" where
  "coverage_statistics type_readings =
     (let count = length type_readings;
          timestamps = map timestamp type_readings;
          time_span = Max (set timestamps) - Min (set timestamps)
      in \<lparr>start_time = Min (set timestamps),
          end_time = Max (set timestamps),
          duration_hours = total_seconds time_span / 3600,
          reading_frequency_minutes =
            (if count > 1 then total_seconds time_span / 60 / real count else 0)\<rparr>)"

definition anomaly_of :: "SensorReading \<Rightarrow> anomaly_entry" where
  "anomaly_of a =
     \<lparr>anomaly_sensor_id = sensor_id a, anomaly_sensor_type = sensor_type a,
      anomaly_value = value a, anomaly_timestamp = timestamp a\<rparr>"

text \<open>
  \<open>generate_fusion_report\<close>. The calls inside pass no threshold and no method, so the
  defaults apply: \<open>threshold_factor = 2.0\<close> and \<open>fusion_method = 'weighted_average'\<close>.
  Each group is non-empty, so \<open>hd\<close>, \<open>Min\<close>, \<open>Max\<close> and the divisions by \<open>count\<close> are
  applied where the Python is defined.
\<close>

definition generate_fusion_report :: "SensorDataFusion \<Rightarrow> int \<Rightarrow> SensorReading list \<Rightarrow> py_error + fusion_report" where
  "generate_fusion_report self now readings =
     (let report = \<lparr>report_timestamp = now, report_field_id = field_id self,
                     total_readings = length readings, sensor_types = [], quality_summary = [],
                     temporal_coverage = [], spatial_coverage = [], anomalies = [],
                     fusion_summary = []\<rparr>
      in if readings = [] then Inr report
         else
           (let groups = sensor_groups readings;
                flagged = detect_sensor_anomalies readings 2
            in case multi_sensor_fusion readings ''weighted_average'' of
                 Inl e \<Rightarrow> Inl e
               | Inr fused_values \<Rightarrow>
                   Inr (report\<lparr>sensor_types := map (\<lambda>(stype, rs). (stype, basic_statistics rs)) groups,
                              quality_summary := map (\<lambda>(stype, rs). (stype, quality_statistics rs)) groups,
                              temporal_coverage := map (\<lambda>(stype, rs). (stype, coverage_statistics rs)) groups,
                              anomalies := map anomaly_of flagged,
                              fusion_summary := fused_values\<rparr>)))"

subsection \<open>Streaming fusion\<close>

record RealTimeFusion =
  stream_field_id :: int
  buffer_size :: int
  reading_buffer :: "(string \<times> SensorReading list) list"
  fusion_engine :: SensorDataFusion

definition RealTimeFusion_init :: "int \<Rightarrow> int \<Rightarrow> RealTimeFusion" where
  "RealTimeFusion_init fid capacity =
     \<lparr>stream_field_id = fid, buffer_size = capacity, reading_buffer = [],
      fusion_engine = SensorDataFusion_init fid\<rparr>"

text \<open>
  \<open>if len(buffer[t]) > self.buffer_size: buffer[t].pop(0)\<close> on the buffer of type \<open>t\<close>. The
  buffer has just been appended to, so \<open>pop(0)\<close> finds an element.
\<close>

fun maintain_buffer_size :: "int \<Rightarrow> string \<Rightarrow> (string \<times> SensorReading list) list \<Rightarrow> (string \<times> SensorReading list) list" where
  "maintain_buffer_size capacity t [] = []"
| "maintain_buffer_size capacity t ((k, rs) # buffer) =
     (if k = t then (k, if int (length rs) > capacity then tl rs else rs) # buffer
      else (k, rs) # maintain_buffer_size capacity t buffer)"

text \<open>
  One hour, the \<open>time_window\<close>, in microseconds. In \<open>recent_readings\<close> the subtraction
  \<open>current_time - r.timestamp\<close> is the subtraction of two naive datetimes.
\<close>

definition time_window :: int where
  "time_window = 3600 * 1000000"

definition recent_readings :: "int \<Rightarrow> (string \<times> SensorReading list) list \<Rightarrow> SensorReading list" where
  "recent_readings current_time buffer =
     concat (map (\<lambda>(stype, readings). filter (\<lambda>r. current_time - timestamp r \<le> time_window) readings) buffer)"

text \<open>
  \<open>add_streaming_reading\<close>, with \<open>datetime.now()\<close> as the argument \<open>current_time\<close>. The
  append is the grouping step \<open>group_add\<close>: a new type gets an empty buffer first.
\<close>

definition add_streaming_reading ::
  "RealTimeFusion \<Rightarrow> int \<Rightarrow> SensorReading \<Rightarrow> py_error + (RealTimeFusion \<times> (string \<times> real) list)" where
  "add_streaming_reading self current_time reading =
     (let appended = group_add (reading_buffer self) reading;
          buffer = maintain_buffer_size (buffer_size self) (sensor_type reading) appended;
          self' = self\<lparr>reading_buffer := buffer\<rparr>;
          recent = recent_readings current_time buffer
      in if recent \<noteq> [] then
           (case multi_sensor_fusion recent ''weighted_average'' of
              Inl e \<Rightarrow> Inl e
            | Inr fused \<Rightarrow> Inr (self', fused))
         else Inr (self', []))"

text \<open>A sequence of calls, each with its own clock reading; it stops at the first exception.\<close>

fun add_streaming_readings :: "RealTimeFusion \<Rightarrow> (int \<times> SensorReading) list \<Rightarrow> py_error + RealTimeFusion" where
  "add_streaming_readings self [] = Inr self"
| "add_streaming_readings self ((current_time, reading) # calls) =
     (case add_streaming_reading self current_time reading of
        Inl e \<Rightarrow> Inl e
      | Inr (self', fused) \<Rightarrow> add_streaming_readings self' calls)"

subsection \<open>Spatial fusion\<close>

text \<open>
  The grouping loop of \<open>fuse_spatial_data\<close> skips a reading without a location before it
  groups.
\<close>

definition located_groups :: "SensorReading list \<Rightarrow> (string \<times> SensorReading list) list" where
  "located_groups readings =
     foldl (\<lambda>groups reading. if location reading = None then groups else group_add groups reading)
           [] readings"

text \<open>
  \<open>[r.location[0] for r in type_readings]\<close> and \<open>[r.location[1] ...]\<close>: subscripting
  \<open>None\<close> raises \<open>TypeError\<close>.
\<close>

fun locations :: "SensorReading list \<Rightarrow> py_error + (real \<times> real) list" where
  "locations [] = Inr []"
| "locations (r # rs) =
     (case location r of
        None \<Rightarrow> Inl TypeError
      | Some p \<Rightarrow> (case locations rs of Inl e \<Rightarrow> Inl e | Inr ps \<Rightarrow> Inr (p # ps)))"

text \<open>
  \<open>np.arange\<close> and \<open>np.meshgrid\<close> are library code, called before the \<open>try\<close>. They
  compute in binary64 and raise on a zero step (also one that a tiny \<open>grid_size\<close>
  underflows to), on a length that cannot be computed or is too large, and when memory runs
  out. The functions below take the two as a parameter: any pair of functions that return
  or raise.
\<close>

record numpy =
  arange :: "real \<Rightarrow> real \<Rightarrow> real \<Rightarrow> py_error + real list"
  meshgrid :: "real list \<Rightarrow> real list \<Rightarrow> py_error + (real list list \<times> real list list)"

text \<open>
  One such pair, the two functions over the reals, for concrete inputs on which binary64
  computes the same step and the same length. \<open>np.arange(start, stop, step)\<close> is the list of
  the points \<open>start + i * step\<close> for \<open>i < ceil((stop - start) / step)\<close>, empty when that
  number is not positive, and it raises when the step is zero.
  \<open>np.meshgrid(xs, ys)\<close> returns two arrays with one row per element of \<open>ys\<close> and one
  column per element of \<open>xs\<close>.
\<close>

definition np_arange :: "real \<Rightarrow> real \<Rightarrow> real \<Rightarrow> py_error + real list" where
  "np_arange start stop step =
     (if step = 0 then Inl ZeroDivisionError
      else Inr (map (\<lambda>i. start + real i * step) [0 ..< nat \<lceil>(stop - start) / step\<rceil>]))"

definition np_meshgrid :: "real list \<Rightarrow> real list \<Rightarrow> py_error + (real list list \<times> real list list)" where
  "np_meshgrid xs ys = Inr (map (\<lambda>y. xs) ys, map (\<lambda>y. map (\<lambda>x. y) xs) ys)"

definition numpy_exact :: numpy where
  "numpy_exact = \<lparr>arange = np_arange, meshgrid = np_meshgrid\<rparr>"

record spatial_grid =
  grid_lat :: "real list list"
  grid_lon :: "real list list"
  grid_values :: "real list list"
  original_points :: nat

text \<open>What the loop body computes before the \<open>try\<close>: the inputs of the interpolation.\<close>

record spatial_inputs =
  in_lats :: "real list"
  in_lons :: "real list"
  in_values :: "real list"
  in_weights :: "real list"
  in_grid_lat :: "real list list"
  in_grid_lon :: "real list list"

text \<open>
  \<open>scipy.interpolate.Rbf\<close> is not code of this repository: the construction of the
  interpolant from \<open>lats, lons, values, weights\<close> followed by its evaluation on the grid is
  a parameter, which returns the surface or raises.
\<close>

type_synonym rbf_interpolation = "spatial_inputs \<Rightarrow> py_error + real list list"

definition build_grid :: "numpy \<Rightarrow> real \<Rightarrow> SensorReading list \<Rightarrow> py_error + spatial_inputs" where
  "build_grid np grid_size type_readings =
     (case locations type_readings of
        Inl e \<Rightarrow> Inl e
      | Inr coords \<Rightarrow>
          (let lats = map fst coords;
               lons = map snd coords;
               values = map value type_readings;
               weights = map quality_score type_readings;
               lat_min = Min (set lats); lat_max = Max (set lats);
               lon_min = Min (set lons); lon_max = Max (set lons)
           in case arange np lat_min lat_max (grid_size / 111000) of
                Inl e \<Rightarrow> Inl e
              | Inr grid_lats \<Rightarrow>
                  (case arange np lon_min lon_max (grid_size / 111000) of
                     Inl e \<Rightarrow> Inl e
                   | Inr grid_lons \<Rightarrow>
                       (case meshgrid np grid_lats grid_lons of
                          Inl e \<Rightarrow> Inl e
                        | Inr (glat, glon) \<Rightarrow>
                            Inr \<lparr>in_lats = lats, in_lons = lons, in_values = values,
                                 in_weights = weights, in_grid_lat = glat, in_grid_lon = glon\<rparr>))))"

text \<open>The body of the \<open>try\<close>: an exception is the \<open>Inl\<close>.\<close>

definition fit_surface :: "rbf_interpolation \<Rightarrow> spatial_inputs \<Rightarrow> nat \<Rightarrow> py_error + spatial_grid" where
  "fit_surface rbf inputs points =
     (case rbf inputs of
        Inl e \<Rightarrow> Inl e
      | Inr surface \<Rightarrow>
          Inr \<lparr>grid_lat = in_grid_lat inputs, grid_lon = in_grid_lon inputs,
               grid_values = surface, original_points = points\<rparr>)"

text \<open>
  The body of the loop over the groups: \<open>Inr None\<close> when the type is skipped (fewer than
  three readings, or an exception inside the \<open>try\<close>, which the \<open>except\<close> swallows),
  \<open>Inr (Some grid)\<close> when an entry is stored, \<open>Inl\<close> for an exception raised outside of the
  \<open>try\<close>, which leaves the function.
\<close>

definition interpolate_type ::
  "numpy \<Rightarrow> rbf_interpolation \<Rightarrow> real \<Rightarrow> SensorReading list \<Rightarrow> py_error + spatial_grid option" where
  "interpolate_type np rbf grid_size type_readings =
     (if length type_readings < 3 then Inr None
      else case build_grid np grid_size type_readings of
             Inl e \<Rightarrow> Inl e
           | Inr inputs \<Rightarrow>
               (case fit_surface rbf inputs (length type_readings) of
                  Inl e \<Rightarrow> Inr None
                | Inr grid \<Rightarrow> Inr (Some grid)))"

fun fuse_spatial_groups ::
  "numpy \<Rightarrow> rbf_interpolation \<Rightarrow> real \<Rightarrow> (string \<times> SensorReading list) list \<Rightarrow>
     py_error + (string \<times> spatial_grid) list" where
  "fuse_spatial_groups np rbf grid_size [] = Inr []"
| "fuse_spatial_groups np rbf grid_size ((stype, type_readings) # groups) =
     (case interpolate_type np rbf grid_size type_readings of
        Inl e \<Rightarrow> Inl e
      | Inr entry \<Rightarrow>
          (case fuse_spatial_groups np rbf grid_size groups of
             Inl e \<Rightarrow> Inl e
           | Inr fused_grids \<Rightarrow>
               Inr (case entry of None \<Rightarrow> fused_grids | Some grid \<Rightarrow> (stype, grid) # fused_grids)))"

definition fuse_spatial_data ::
  "numpy \<Rightarrow> rbf_interpolation \<Rightarrow> SensorReading list \<Rightarrow> real \<Rightarrow> py_error + (string \<times> spatial_grid) list" where
  "fuse_spatial_data np rbf readings grid_size =
     (if readings = [] then Inr []
      else fuse_spatial_groups np rbf grid_size (located_groups readings))"

section \<open>Properties\<close>

subsection \<open>Grouping\<close>

lemma group_add_keys:
  "map fst (group_add g r) = (if sensor_type r \<in> fst ` set g then map fst g else map fst g @ [sensor_type r])"
  by (induction g r rule: group_add.induct) auto

lemma group_add_map_of:
  "map_of (group_add g r) t =
     (if t = sensor_type r then Some (case map_of g t of None \<Rightarrow> [r] | Some rs \<Rightarrow> rs @ [r])
      else map_of g t)"
  by (induction g r rule: group_add.induct) auto

lemma foldl_group_add_distinct:
  "distinct (map fst g) \<Longrightarrow> distinct (map fst (foldl group_add g rs))"
  by (induction rs arbitrary: g) (auto simp: group_add_keys)

lemma foldl_group_add_map_of:
  "map_of (foldl group_add g rs) t =
     (case map_of g t of
        None \<Rightarrow> (if filter (\<lambda>r. sensor_type r = t) rs = [] then None
                 else Some (filter (\<lambda>r. sensor_type r = t) rs))
      | Some old \<Rightarrow> Some (old @ filter (\<lambda>r. sensor_type r = t) rs))"
  by (induction rs arbitrary: g) (auto simp: group_add_map_of split: option.splits)

lemma sensor_groups_distinct: "distinct (map fst (sensor_groups readings))"
  by (simp add: sensor_groups_def foldl_group_add_distinct)

lemma sensor_groups_map_of:
  "map_of (sensor_groups readings) t =
     (if filter (\<lambda>r. sensor_type r = t) readings = [] then None
      else Some (filter (\<lambda>r. sensor_type r = t) readings))"
  by (simp add: sensor_groups_def foldl_group_add_map_of)

lemma sensor_groups_entry:
  "(t, rs) \<in> set (sensor_groups readings) \<longleftrightarrow>
     rs \<noteq> [] \<and> rs = filter (\<lambda>r. sensor_type r = t) readings"
proof -
  have "(t, rs) \<in> set (sensor_groups readings) \<longleftrightarrow> map_of (sensor_groups readings) t = Some rs"
    using sensor_groups_distinct [of readings] by simp
  then show ?thesis
    by (auto simp: sensor_groups_map_of)
qed

lemma sensor_groups_nonempty: "(t, rs) \<in> set (sensor_groups readings) \<Longrightarrow> rs \<noteq> []"
  by (auto simp: sensor_groups_entry)

lemma foldl_group_add_same_type:
  "\<forall>r\<in>set rs. sensor_type r = t \<Longrightarrow> foldl group_add [(t, xs)] rs = [(t, xs @ rs)]"
  by (induction rs arbitrary: xs) auto

lemma sensor_groups_single_type:
  assumes "readings \<noteq> []" and "\<forall>r\<in>set readings. sensor_type r = t"
  shows "sensor_groups readings = [(t, readings)]"
proof (cases readings)
  case Nil
  with assms(1) show ?thesis by simp
next
  case (Cons r rs)
  with assms(2) have "sensor_type r = t" and "\<forall>r\<in>set rs. sensor_type r = t"
    by simp_all
  then show ?thesis
    using foldl_group_add_same_type [of rs t "[r]"] Cons by (simp add: sensor_groups_def)
qed

subsection \<open>Anomaly detection\<close>

lemma detect_single_type:
  assumes "\<forall>r\<in>set readings. sensor_type r = t"
  shows "detect_sensor_anomalies readings tf = type_anomalies tf readings"
proof (cases "readings = []")
  case True
  then show ?thesis by (simp add: detect_sensor_anomalies_def sensor_groups_def type_anomalies_def)
next
  case False
  then show ?thesis
    using sensor_groups_single_type [OF False assms]
    by (simp add: detect_sensor_anomalies_def)
qed

lemma np_mean_five: "np_mean [10, 10, 10, 10, 60] = 20"
  by (simp add: np_mean_def)

lemma np_std_five: "np_std [10, 10, 10, 10, 60] = 20"
proof -
  have "np_mean (map (\<lambda>x. \<bar>x - 20\<bar> ^ 2) [10, 10, 10, 10, 60 :: real]) = 400"
    by (simp add: np_mean_def)
  moreover have "sqrt 400 = 20"
    by (rule real_sqrt_unique) simp_all
  ultimately show ?thesis
    by (simp only: np_std_def np_mean_five)
qed

text \<open>
  C1, as the code has it. For one sensor type with the values 10, 10, 10, 10, 60 the mean is
  20 and the population standard deviation is 20. A reading is flagged iff
  \<open>|value - mean| > threshold_factor * std\<close>, and the comparison is strict: with
  \<open>threshold_factor = 2\<close> the reading 60 lies exactly at \<open>2 * std\<close> from the mean and is
  not flagged, so the result is empty.
\<close>

theorem detect_sensor_anomalies_five_values:
  assumes vals: "map value readings = [10, 10, 10, 10, 60]"
    and same: "\<forall>r\<in>set readings. sensor_type r = t"
  shows "np_mean (map value readings) = 20 \<and> np_std (map value readings) = 20 \<and>
         (\<forall>tf r. r \<in> set (detect_sensor_anomalies readings tf) \<longleftrightarrow>
                  r \<in> set readings \<and>
                  \<bar>value r - np_mean (map value readings)\<bar> > tf * np_std (map value readings)) \<and>
         detect_sensor_anomalies readings 2 = []"
proof -
  have len: "length readings = 5"
    using arg_cong [OF vals, of length] by simp
  have m: "np_mean (map value readings) = 20" and s: "np_std (map value readings) = 20"
    by (simp_all only: vals np_mean_five np_std_five)
  have det: "detect_sensor_anomalies readings tf =
      filter (\<lambda>r. \<bar>value r - 20\<bar> > tf * 20) readings" for tf
    using len by (simp add: detect_single_type [OF same] type_anomalies_def m s Let_def)
  have "value r \<in> {10, 60}" if "r \<in> set readings" for r
  proof -
    from that have "value r \<in> set (map value readings)" by simp
    then show ?thesis by (simp only: vals) auto
  qed
  then have "\<not> \<bar>value r - 20\<bar> > 2 * 20" if "r \<in> set readings" for r
    using that by fastforce
  then have "filter (\<lambda>r. \<bar>value r - 20\<bar> > 2 * 20) readings = []"
    by (simp add: filter_empty_conv)
  then show ?thesis using m s det by auto
qed

theorem detect_sensor_anomalies_five_values_witness:
  "map value (map example_reading [10, 10, 10, 10, 60]) = [10, 10, 10, 10, 60] \<and>
   detect_sensor_anomalies (map example_reading [10, 10, 10, 10, 60]) 2 = []"
  using detect_sensor_anomalies_five_values
    [of "map example_reading [10, 10, 10, 10, 60]" "''soil_moisture''"]
  by (simp add: example_reading_def)

text \<open>The claim as the specification words it fails: the reading 60 is not returned.\<close>

theorem detect_sensor_anomalies_flags_60_counterexample:
  "detect_sensor_anomalies (map example_reading [10, 10, 10, 10, 60]) 2 \<noteq> [example_reading 60]"
proof -
  have "detect_sensor_anomalies (map example_reading [10, 10, 10, 10, 60]) 2
      = type_anomalies 2 (map example_reading [10, 10, 10, 10, 60])"
    by (rule detect_single_type [where t = "''soil_moisture''"]) (simp add: example_reading_def)
  also have "\<dots> = []"
    by (simp add: type_anomalies_def Let_def example_reading_def np_mean_five np_std_five)
  finally show ?thesis by simp
qed

subsection \<open>Multi-sensor fusion\<close>

lemma fuse_groups_weighted_average:
  "fuse_groups ''weighted_average'' groups = Inr (map (\<lambda>(t, rs). (t, weighted_average rs)) groups)"
  by (induction groups) (auto simp: fuse_group_def)

lemma multi_sensor_fusion_weighted_average:
  "multi_sensor_fusion readings ''weighted_average'' =
     Inr (map (\<lambda>(t, rs). (t, weighted_average rs)) (sensor_groups readings))"
  by (simp add: multi_sensor_fusion_def fuse_groups_weighted_average sensor_groups_def)

lemma map_of_fused:
  "map_of (map (\<lambda>(t, rs). (t, weighted_average rs)) groups) t = map_option weighted_average (map_of groups t)"
  by (induction groups) auto

lemma weighted_average_quality_one:
  assumes "\<forall>r\<in>set rs. quality_score r = 1" and "rs \<noteq> []"
  shows "weighted_average rs = np_mean (map value rs)"
proof -
  have q: "map quality_score rs = map (\<lambda>r. 1) rs"
    using assms(1) by simp
  have v: "map (\<lambda>r. value r * quality_score r) rs = map value rs"
    using assms(1) by simp
  have "sum_list (map quality_score rs) = real (length rs)"
    unfolding q by (simp add: sum_list_triv)
  moreover have "0 < length rs" using assms(2) by simp
  ultimately show ?thesis
    by (simp add: weighted_average_def np_mean_def v)
qed

text \<open>
  C4. Fusion with the method \<open>weighted_average\<close> never raises, and for every sensor type
  that has a reading it returns \<open>\<Sum>(value * quality_score) / \<Sum>quality_score\<close> over the
  readings of the type when the total quality is positive, their arithmetic mean when the
  total quality is zero, and so their arithmetic mean when every quality score is 1.
\<close>

theorem multi_sensor_fusion_weighted_average_value:
  assumes g: "g = filter (\<lambda>r. sensor_type r = t) readings" and ne: "g \<noteq> []"
  shows "\<exists>fused. multi_sensor_fusion readings ''weighted_average'' = Inr fused \<and>
           (sum_list (map quality_score g) > 0 \<longrightarrow>
              map_of fused t = Some (sum_list (map (\<lambda>r. value r * quality_score r) g) / sum_list (map quality_score g))) \<and>
           (sum_list (map quality_score g) = 0 \<longrightarrow>
              map_of fused t = Some (sum_list (map value g) / real (length g))) \<and>
           ((\<forall>r\<in>set g. quality_score r = 1) \<longrightarrow>
              map_of fused t = Some (sum_list (map value g) / real (length g)))"
proof -
  let ?fused = "map (\<lambda>(t, rs). (t, weighted_average rs)) (sensor_groups readings)"
  have "map_of (sensor_groups readings) t = Some g"
    using g ne by (simp add: sensor_groups_map_of)
  then have at: "map_of ?fused t = Some (weighted_average g)"
    by (simp add: map_of_fused)
  have pos: "weighted_average g = sum_list (map (\<lambda>r. value r * quality_score r) g) / sum_list (map quality_score g)"
    if "sum_list (map quality_score g) > 0"
    using that by (simp add: weighted_average_def)
  have zero: "weighted_average g = sum_list (map value g) / real (length g)"
    if "sum_list (map quality_score g) = 0"
    using that by (simp add: weighted_average_def np_mean_def)
  have one: "weighted_average g = sum_list (map value g) / real (length g)"
    if "\<forall>r\<in>set g. quality_score r = 1"
    using weighted_average_quality_one [OF that ne] by (simp add: np_mean_def)
  show ?thesis
    using multi_sensor_fusion_weighted_average [of readings] at pos zero one by auto
qed

theorem multi_sensor_fusion_weighted_average_value_witness:
  "multi_sensor_fusion [example_reading 1, example_reading 2] ''weighted_average'' =
     Inr [(''soil_moisture'', 3 / 2)]"
proof -
  let ?rs = "[example_reading 1, example_reading 2]"
  have g: "?rs = filter (\<lambda>r. sensor_type r = ''soil_moisture'') ?rs"
    by (simp add: example_reading_def)
  have ne: "?rs \<noteq> []" by simp
  have eq: "multi_sensor_fusion ?rs ''weighted_average'' = Inr [(''soil_moisture'', weighted_average ?rs)]"
    by (simp add: multi_sensor_fusion_def sensor_groups_def fuse_group_def example_reading_def)
  obtain fused where f: "multi_sensor_fusion ?rs ''weighted_average'' = Inr fused"
    and m: "(\<forall>r\<in>set ?rs. quality_score r = 1) \<longrightarrow>
              map_of fused ''soil_moisture'' = Some (sum_list (map value ?rs) / real (length ?rs))"
    using multi_sensor_fusion_weighted_average_value [OF g ne] by blast
  from f eq have "fused = [(''soil_moisture'', weighted_average ?rs)]" by simp
  with m have "weighted_average ?rs = 3 / 2"
    by (simp add: example_reading_def)
  with eq show ?thesis by simp
qed

subsection \<open>Kalman filter fusion\<close>

lemma kalman_error_step:
  fixes e :: real
  assumes "0 \<le> e"
  shows "(1 - (e + 1 / 10) / (e + 1 / 10 + 1)) * (e + 1 / 10) = (e + 1 / 10) / (e + 11 / 10)"
proof -
  have "e + 1 / 10 + 1 = e + 11 / 10" by simp
  moreover have "e + 11 / 10 \<noteq> 0" using assms by simp
  ultimately show ?thesis by (simp add: field_simps)
qed

lemma kalman_update_same_value:
  assumes "quality_score r = 1" and "value r = estimate s" and "0 \<le> estimate_error s"
  shows "kalman_update s r =
     Inr \<lparr>estimate = estimate s,
          estimate_error = (estimate_error s + 1 / 10) / (estimate_error s + 11 / 10)\<rparr>"
proof -
  let ?p = "estimate_error s + 1 / 10"
  have nz: "?p + 1 \<noteq> 0" using assms(3) by simp
  have "kalman_update s r =
      Inr \<lparr>estimate = estimate s + ?p / (?p + 1) * (value r - estimate s),
           estimate_error = (1 - ?p / (?p + 1)) * ?p\<rparr>"
    using assms(1) nz by (simp add: kalman_update_def py_div_def Let_def)
  also have "estimate s + ?p / (?p + 1) * (value r - estimate s) = estimate s"
    using assms(2) by simp
  also have "(1 - ?p / (?p + 1)) * ?p = ?p / (estimate_error s + 11 / 10)"
    using assms(3) by (rule kalman_error_step)
  finally show ?thesis .
qed

text \<open>
  C5. Three readings with value 10 and quality score 1, in insertion order. The state of
  the loop after \<open>k\<close> updates is \<open>kalman_loop\<close> on the first \<open>k\<close> readings after the
  first. The estimate starts at the first value, 10, with error 1, and stays at 10 at every
  step, so its distance to 10 never grows; the error strictly decreases at each update:
  \<open>1 > 11/21 > 131/341\<close>. The fused value is 10.
\<close>

theorem kalman_filter_fusion_three_tens:
  assumes vals: "map value readings = [10, 10, 10]"
    and quals: "map quality_score readings = [1, 1, 1]"
  shows "kalman_loop (kalman_init (hd readings)) (take 0 (tl readings)) =
           Inr \<lparr>estimate = 10, estimate_error = 1\<rparr> \<and>
         kalman_loop (kalman_init (hd readings)) (take 1 (tl readings)) =
           Inr \<lparr>estimate = 10, estimate_error = 11 / 21\<rparr> \<and>
         kalman_loop (kalman_init (hd readings)) (take 2 (tl readings)) =
           Inr \<lparr>estimate = 10, estimate_error = 131 / 341\<rparr> \<and>
         (131 / 341 :: real) < 11 / 21 \<and> (11 / 21 :: real) < 1 \<and>
         kalman_filter_fusion readings = Inr 10"
proof -
  obtain a b c where rs: "readings = [a, b, c]"
    using vals by (auto simp: map_eq_Cons_conv)
  have v: "value a = 10" "value b = 10" "value c = 10"
    using vals rs by simp_all
  have q: "quality_score b = 1" "quality_score c = 1"
    using quals rs by simp_all
  let ?s0 = "\<lparr>estimate = 10, estimate_error = 1\<rparr>"
  let ?s1 = "\<lparr>estimate = 10, estimate_error = 11 / 21\<rparr>"
  let ?s2 = "\<lparr>estimate = 10, estimate_error = 131 / 341\<rparr>"
  have i: "kalman_init a = ?s0" by (simp add: kalman_init_def v)
  have u1: "kalman_update ?s0 b = Inr ?s1"
    using kalman_update_same_value [of b ?s0] q v by simp
  have u2: "kalman_update ?s1 c = Inr ?s2"
    using kalman_update_same_value [of c ?s1] q v by simp
  show ?thesis
    by (simp add: rs i u1 u2 kalman_filter_fusion_def)
qed

theorem kalman_filter_fusion_three_tens_witness:
  "kalman_filter_fusion (map example_reading [10, 10, 10]) = Inr 10"
  using kalman_filter_fusion_three_tens [of "map example_reading [10, 10, 10]"]
  by (simp add: example_reading_def)

subsection \<open>Cleaning\<close>

lemma set_zip_filter_snd: "set (map snd (filter P (zip zs qs))) \<subseteq> set qs"
  by (auto dest: set_zip_rightD)

lemma clean_group_subset:
  "set (clean_group remove_outliers z_threshold readings)
     \<subseteq> set (filter (\<lambda>r. quality_score r \<ge> 0.5) readings)"
  unfolding clean_group_def Let_def
  by (simp only: set_zip_filter_snd subset_refl split: if_split) simp

text \<open>
  C7. Every reading returned by \<open>clean_data\<close> is one of the stored readings and has a
  quality score of at least 0.5: no reading with \<open>quality_score < 0.5\<close> is in the output,
  whatever its sensor type, \<open>remove_outliers\<close> and \<open>z_threshold\<close>.
\<close>

theorem clean_data_quality:
  assumes "r \<in> set (clean_data self remove_outliers z_threshold)"
  shows "\<not> quality_score r < 0.5 \<and> r \<in> set (sensor_readings self)"
proof -
  from assms obtain t rs where grp: "(t, rs) \<in> set (sensor_groups (sensor_readings self))"
    and r: "r \<in> set (clean_group remove_outliers z_threshold rs)"
    by (auto simp: clean_data_def)
  from grp have "rs = filter (\<lambda>r. sensor_type r = t) (sensor_readings self)"
    by (simp add: sensor_groups_entry)
  then have "set rs \<subseteq> set (sensor_readings self)" by auto
  moreover from r have "r \<in> set (filter (\<lambda>r. quality_score r \<ge> 0.5) rs)"
    using clean_group_subset [of remove_outliers z_threshold rs] by blast
  then have "r \<in> set rs" and "quality_score r \<ge> 0.5"
    by simp_all
  ultimately show ?thesis by auto
qed

theorem clean_data_quality_witness:
  "clean_data (SensorDataFusion_init 1\<lparr>sensor_readings :=
      [example_reading 10\<lparr>quality_score := 0.4\<rparr>, example_reading 20]\<rparr>) True 3 = [example_reading 20] \<and>
   \<not> quality_score (example_reading 20) < 0.5"
proof -
  let ?self = "SensorDataFusion_init 1\<lparr>sensor_readings :=
      [example_reading 10\<lparr>quality_score := 0.4\<rparr>, example_reading 20]\<rparr>"
  have out: "clean_data ?self True 3 = [example_reading 20]"
    by (simp add: clean_data_def sensor_groups_def clean_group_def example_reading_def Let_def)
  then have "example_reading 20 \<in> set (clean_data ?self True 3)" by simp
  then have "\<not> quality_score (example_reading 20) < 0.5"
    using clean_data_quality [of "example_reading 20" ?self True 3] by blast
  with out show ?thesis by simp
qed

subsection \<open>Fusion report\<close>

text \<open>
  C8. Building the report never raises, and its \<open>fusion_summary\<close> is what
  \<open>multi_sensor_fusion\<close> returns on the same readings with the default method
  \<open>weighted_average\<close>; for no readings both are empty.
\<close>

theorem generate_fusion_report_fusion_summary:
  "\<exists>report. generate_fusion_report self now readings = Inr report \<and>
     multi_sensor_fusion readings ''weighted_average'' = Inr (fusion_summary report)"
proof (cases "readings = []")
  case True
  then show ?thesis
    by (simp add: generate_fusion_report_def multi_sensor_fusion_def)
next
  case False
  then show ?thesis
    by (simp add: generate_fusion_report_def Let_def multi_sensor_fusion_weighted_average)
qed

subsection \<open>Calibration\<close>

lemma calibrate_unregistered:
  "factors_of (sensor_type r) = None \<Longrightarrow> calibrate factors_of r = r"
  by (simp add: calibrate_def)

lemma calibrate_registered:
  "factors_of (sensor_type r) = Some factors \<Longrightarrow>
   calibrate factors_of r =
     r\<lparr>value := factor_get factors ''slope'' 1 * value r + factor_get factors ''offset'' 0,
       metadata := (metadata r)(''calibrated'' \<mapsto> MBool True)\<rparr>"
  by (simp add: calibrate_def Let_def)

lemma calibrate_unit_slope_twice:
  assumes "\<forall>t factors. factors_of t = Some factors \<longrightarrow>
             factor_get factors ''slope'' 1 = 1 \<and> factor_get factors ''offset'' 0 = 0"
  shows "calibrate factors_of (calibrate factors_of r) = calibrate factors_of r"
proof (cases "factors_of (sensor_type r)")
  case None
  then show ?thesis by (simp add: calibrate_unregistered)
next
  case (Some factors)
  with assms have "factor_get factors ''slope'' 1 = 1" and "factor_get factors ''offset'' 0 = 0"
    by blast+
  with Some show ?thesis
    by (simp add: calibrate_def Let_def)
qed

text \<open>
  C6. \<open>apply_calibration\<close> maps the readings one to one and in order. A reading whose
  type has no calibration factor is returned unchanged; one whose type has a factor gets
  the value \<open>slope * value + offset\<close> (\<open>slope\<close> and \<open>offset\<close> of the factor, 1 and 0 when
  the key is absent). When every registered factor has slope 1 and offset 0, calibrating
  twice gives the same readings, and so the same values, as calibrating once.
\<close>

theorem apply_calibration_identity_linear_idempotent:
  "length (apply_calibration self readings) = length readings \<and>
   (\<forall>i < length readings.
      (calibration_factors self (sensor_type (readings ! i)) = None \<longrightarrow>
         apply_calibration self readings ! i = readings ! i) \<and>
      (\<forall>factors. calibration_factors self (sensor_type (readings ! i)) = Some factors \<longrightarrow>
         value (apply_calibration self readings ! i) =
           factor_get factors ''slope'' 1 * value (readings ! i) + factor_get factors ''offset'' 0)) \<and>
   ((\<forall>t factors. calibration_factors self t = Some factors \<longrightarrow>
        factor_get factors ''slope'' 1 = 1 \<and> factor_get factors ''offset'' 0 = 0) \<longrightarrow>
      apply_calibration self (apply_calibration self readings) = apply_calibration self readings \<and>
      map value (apply_calibration self (apply_calibration self readings)) =
        map value (apply_calibration self readings))"
proof -
  have "apply_calibration self (apply_calibration self readings) = apply_calibration self readings"
    if "\<forall>t factors. calibration_factors self t = Some factors \<longrightarrow>
          factor_get factors ''slope'' 1 = 1 \<and> factor_get factors ''offset'' 0 = 0"
    using calibrate_unit_slope_twice [OF that] by (simp add: apply_calibration_def)
  then show ?thesis
    by (auto simp: apply_calibration_def calibrate_unregistered calibrate_registered)
qed

theorem apply_calibration_identity_linear_idempotent_witness:
  "apply_calibration (SensorDataFusion_init 1) [example_reading 5] = [example_reading 5] \<and>
   map value (apply_calibration
     (SensorDataFusion_init 1\<lparr>calibration_factors := [''soil_moisture'' \<mapsto> [''slope'' \<mapsto> 2, ''offset'' \<mapsto> 3]]\<rparr>)
     [example_reading 5]) = [13] \<and>
   map value (apply_calibration
     (SensorDataFusion_init 1\<lparr>calibration_factors := [''soil_moisture'' \<mapsto> [''slope'' \<mapsto> 1, ''offset'' \<mapsto> 0]]\<rparr>)
     (apply_calibration
     (SensorDataFusion_init 1\<lparr>calibration_factors := [''soil_moisture'' \<mapsto> [''slope'' \<mapsto> 1, ''offset'' \<mapsto> 0]]\<rparr>)
     [example_reading 5])) = [5]"
proof -
  let ?none = "SensorDataFusion_init 1"
  let ?lin = "SensorDataFusion_init 1\<lparr>calibration_factors := [''soil_moisture'' \<mapsto> [''slope'' \<mapsto> 2, ''offset'' \<mapsto> 3]]\<rparr>"
  let ?unit = "SensorDataFusion_init 1\<lparr>calibration_factors := [''soil_moisture'' \<mapsto> [''slope'' \<mapsto> 1, ''offset'' \<mapsto> 0]]\<rparr>"
  have a: "apply_calibration ?none [example_reading 5] = [example_reading 5]"
    using apply_calibration_identity_linear_idempotent [of ?none "[example_reading 5]"]
    by (auto simp: SensorDataFusion_init_def list_eq_iff_nth_eq)
  have "value (apply_calibration ?lin [example_reading 5] ! 0) = 13"
    using apply_calibration_identity_linear_idempotent [of ?lin "[example_reading 5]"]
    by (simp add: SensorDataFusion_init_def example_reading_def factor_get_def)
  then have b: "map value (apply_calibration ?lin [example_reading 5]) = [13]"
    by (simp add: apply_calibration_def)
  have "map value (apply_calibration ?unit (apply_calibration ?unit [example_reading 5])) =
        map value (apply_calibration ?unit [example_reading 5])"
    using apply_calibration_identity_linear_idempotent [of ?unit "[example_reading 5]"]
    by (simp add: SensorDataFusion_init_def factor_get_def)
  also have "\<dots> = [5]"
    by (simp add: apply_calibration_def calibrate_def SensorDataFusion_init_def example_reading_def
        factor_get_def Let_def)
  finally show ?thesis using a b by simp
qed

lemma apply_calibration_store_extends:
  "apply_calibration_store factors_of store refs = (store', out) \<Longrightarrow>
   length out = length refs \<and> (\<exists>new. store' = store @ new)"
proof (induction refs arbitrary: store store' out)
  case Nil
  then show ?case by simp
next
  case (Cons ref refs)
  show ?case
  proof (cases "sensor_type (store ! ref) \<in> dom factors_of")
    case True
    obtain s2 o2 where rec: "apply_calibration_store factors_of
        (store @ [calibrate factors_of (store ! ref)]) refs = (s2, o2)"
      by (cases "apply_calibration_store factors_of (store @ [calibrate factors_of (store ! ref)]) refs")
    with Cons.prems True have "store' = s2" and "out = length store # o2"
      by (simp_all add: Let_def)
    with Cons.IH [OF rec] show ?thesis by auto
  next
    case False
    obtain s2 o2 where rec: "apply_calibration_store factors_of store refs = (s2, o2)"
      by (cases "apply_calibration_store factors_of store refs")
    with Cons.prems False have "store' = s2" and "out = ref # o2"
      by (simp_all add: Let_def)
    with Cons.IH [OF rec] show ?thesis by auto
  qed
qed

lemma apply_calibration_store_refines:
  assumes "apply_calibration_store factors_of store refs = (store', out)"
    and "\<forall>ref\<in>set refs. ref < length store"
  shows "map ((!) store') out = map (calibrate factors_of) (map ((!) store) refs) \<and>
         (\<forall>i < length refs.
            if sensor_type (store ! (refs ! i)) \<in> dom factors_of
            then length store \<le> out ! i \<and> out ! i < length store'
            else out ! i = refs ! i)"
  using assms
proof (induction refs arbitrary: store store' out)
  case Nil
  then show ?case by simp
next
  case (Cons ref refs)
  from Cons.prems(2) have ref: "ref < length store" and refs: "\<forall>r\<in>set refs. r < length store"
    by simp_all
  show ?case
  proof (cases "sensor_type (store ! ref) \<in> dom factors_of")
    case True
    let ?s1 = "store @ [calibrate factors_of (store ! ref)]"
    obtain s2 o2 where rec: "apply_calibration_store factors_of ?s1 refs = (s2, o2)"
      by (cases "apply_calibration_store factors_of ?s1 refs")
    with Cons.prems(1) True have eq: "store' = s2" "out = length store # o2"
      by (simp_all add: Let_def)
    have refs1: "\<forall>r\<in>set refs. r < length ?s1" using refs by auto
    note ih = Cons.IH [OF rec refs1]
    obtain new where s2: "s2 = ?s1 @ new"
      using apply_calibration_store_extends [OF rec] by blast
    have old: "?s1 ! r = store ! r" if "r < length store" for r
      using that by (simp add: nth_append)
    have m: "map ((!) ?s1) refs = map ((!) store) refs"
      using refs old by simp
    have hd: "s2 ! length store = calibrate factors_of (store ! ref)"
      by (simp add: s2 nth_append)
    have "map ((!) store') out = map (calibrate factors_of) (map ((!) store) (ref # refs))"
      using ih m hd eq by simp
    moreover have "if sensor_type (store ! ((ref # refs) ! i)) \<in> dom factors_of
            then length store \<le> out ! i \<and> out ! i < length store'
            else out ! i = (ref # refs) ! i" if "i < length (ref # refs)" for i
    proof (cases i)
      case 0
      then show ?thesis using True eq s2 by simp
    next
      case (Suc j)
      with that have j: "j < length refs" by simp
      then have "refs ! j < length store" using refs by simp
      then have "?s1 ! (refs ! j) = store ! (refs ! j)" by (rule old)
      with ih j Suc eq show ?thesis by (auto split: if_splits)
    qed
    ultimately show ?thesis by blast
  next
    case False
    obtain s2 o2 where rec: "apply_calibration_store factors_of store refs = (s2, o2)"
      by (cases "apply_calibration_store factors_of store refs")
    with Cons.prems(1) False have eq: "store' = s2" "out = ref # o2"
      by (simp_all add: Let_def)
    note ih = Cons.IH [OF rec refs]
    obtain new where s2: "s2 = store @ new"
      using apply_calibration_store_extends [OF rec] by blast
    have "factors_of (sensor_type (store ! ref)) = None" using False by auto
    then have "calibrate factors_of (store ! ref) = store ! ref"
      by (rule calibrate_unregistered)
    moreover have "s2 ! ref = store ! ref" using ref by (simp add: s2 nth_append)
    ultimately have "map ((!) store') out = map (calibrate factors_of) (map ((!) store) (ref # refs))"
      using ih eq by simp
    moreover have "if sensor_type (store ! ((ref # refs) ! i)) \<in> dom factors_of
            then length store \<le> out ! i \<and> out ! i < length store'
            else out ! i = (ref # refs) ! i" if "i < length (ref # refs)" for i
    proof (cases i)
      case 0
      then show ?thesis using False eq by simp
    next
      case (Suc j)
      with that have j: "j < length refs" by simp
      with ih Suc eq show ?thesis by (auto split: if_splits)
    qed
    ultimately show ?thesis by blast
  qed
qed

text \<open>
  C10. On the object store: after \<open>apply_calibration\<close>, every reading object that existed
  before the call is unmodified. For an input reading whose type has a calibration factor
  the output is a new object whose \<open>sensor_id\<close>, \<open>sensor_type\<close>, \<open>unit\<close>, \<open>timestamp\<close>,
  \<open>location\<close> and \<open>quality_score\<close> are those of the input reading; its metadata is the
  input's metadata with \<open>calibrated\<close> set to true, and its value is the calibrated one.
  The objects returned are, read as values, the result of \<open>apply_calibration\<close>.
\<close>

theorem apply_calibration_frame:
  assumes run: "apply_calibration_store (calibration_factors self) store refs = (store', out)"
    and valid: "\<forall>ref\<in>set refs. ref < length store"
    and i: "i < length refs"
    and reg: "calibration_factors self (sensor_type (store ! (refs ! i))) = Some factors"
  shows "take (length store) store' = store \<and>
         store' ! (refs ! i) = store ! (refs ! i) \<and>
         length store \<le> out ! i \<and> out ! i < length store' \<and>
         sensor_id (store' ! (out ! i)) = sensor_id (store ! (refs ! i)) \<and>
         sensor_type (store' ! (out ! i)) = sensor_type (store ! (refs ! i)) \<and>
         unit (store' ! (out ! i)) = unit (store ! (refs ! i)) \<and>
         timestamp (store' ! (out ! i)) = timestamp (store ! (refs ! i)) \<and>
         location (store' ! (out ! i)) = location (store ! (refs ! i)) \<and>
         quality_score (store' ! (out ! i)) = quality_score (store ! (refs ! i)) \<and>
         metadata (store' ! (out ! i)) = (metadata (store ! (refs ! i)))(''calibrated'' \<mapsto> MBool True) \<and>
         value (store' ! (out ! i)) =
           factor_get factors ''slope'' 1 * value (store ! (refs ! i)) + factor_get factors ''offset'' 0 \<and>
         map ((!) store') out = apply_calibration self (map ((!) store) refs)"
proof -
  let ?r = "store ! (refs ! i)"
  obtain new where ext: "store' = store @ new" and len: "length out = length refs"
    using apply_calibration_store_extends [OF run] by blast
  have ri: "refs ! i < length store" using valid i by simp
  have frame: "take (length store) store' = store" "store' ! (refs ! i) = ?r"
    using ri by (simp_all add: ext nth_append)
  note ref = apply_calibration_store_refines [OF run valid]
  from ref have vals: "map ((!) store') out = apply_calibration self (map ((!) store) refs)"
    by (simp add: apply_calibration_def)
  have "sensor_type ?r \<in> dom (calibration_factors self)" using reg by auto
  with ref i have fresh: "length store \<le> out ! i" "out ! i < length store'"
    by (auto split: if_splits)
  have "map ((!) store') out ! i = map (calibrate (calibration_factors self)) (map ((!) store) refs) ! i"
    using ref by simp
  then have "store' ! (out ! i) = calibrate (calibration_factors self) ?r"
    using i len by simp
  also have "\<dots> = ?r\<lparr>value := factor_get factors ''slope'' 1 * value ?r + factor_get factors ''offset'' 0,
       metadata := (metadata ?r)(''calibrated'' \<mapsto> MBool True)\<rparr>"
    using reg by (rule calibrate_registered)
  finally have new: "store' ! (out ! i) =
      ?r\<lparr>value := factor_get factors ''slope'' 1 * value ?r + factor_get factors ''offset'' 0,
         metadata := (metadata ?r)(''calibrated'' \<mapsto> MBool True)\<rparr>" .
  show ?thesis
    using frame fresh vals by (simp add: new)
qed

theorem apply_calibration_frame_witness:
  "apply_calibration_store [''soil_moisture'' \<mapsto> [''slope'' \<mapsto> 2]] [example_reading 5] [0] =
     ([example_reading 5,
       example_reading 10\<lparr>metadata := [''calibrated'' \<mapsto> MBool True]\<rparr>], [1]) \<and>
   take (length [example_reading 5])
     [example_reading 5, example_reading 10\<lparr>metadata := [''calibrated'' \<mapsto> MBool True]\<rparr>]
     = [example_reading 5] \<and>
   quality_score ([example_reading 5, example_reading 10\<lparr>metadata := [''calibrated'' \<mapsto> MBool True]\<rparr>] ! ([1] ! 0))
     = quality_score ([example_reading 5] ! ([0] ! 0))"
proof -
  let ?self = "SensorDataFusion_init 1\<lparr>calibration_factors := [''soil_moisture'' \<mapsto> [''slope'' \<mapsto> 2]]\<rparr>"
  let ?store' = "[example_reading 5, example_reading 10\<lparr>metadata := [''calibrated'' \<mapsto> MBool True]\<rparr>]"
  have run: "apply_calibration_store (calibration_factors ?self) [example_reading 5] [0] = (?store', [1])"
    by (simp add: example_reading_def calibrate_def factor_get_def Let_def)
  have valid: "\<forall>ref\<in>set [0]. ref < length [example_reading 5]" by simp
  have i: "(0::nat) < length [0::nat]" by simp
  have reg: "calibration_factors ?self (sensor_type ([example_reading 5] ! ([0] ! 0))) = Some [''slope'' \<mapsto> 2]"
    by (simp add: example_reading_def)
  from apply_calibration_frame [OF run valid i reg] run show ?thesis
    by simp
qed

subsection \<open>Streaming buffer\<close>

lemma maintain_buffer_size_keys:
  "map fst (maintain_buffer_size capacity t buffer) = map fst buffer"
  by (induction capacity t buffer rule: maintain_buffer_size.induct) auto

lemma maintain_buffer_size_map_of:
  "map_of (maintain_buffer_size capacity t buffer) k =
     (if k = t then map_option (\<lambda>rs. if int (length rs) > capacity then tl rs else rs) (map_of buffer t)
      else map_of buffer k)"
  by (induction capacity t buffer rule: maintain_buffer_size.induct) auto

text \<open>Append, then drop the oldest if the buffer is over capacity: the last readings remain.\<close>

lemma append_then_pop:
  fixes xs :: "'a list"
  assumes new: "new = drop (length xs - nat capacity) xs @ [r]"
  shows "(if int (length new) > capacity then tl new else new)
           = drop (length (xs @ [r]) - nat capacity) (xs @ [r])"
proof (cases "length xs < nat capacity")
  case True
  then have "new = xs @ [r]" and "\<not> int (length (xs @ [r])) > capacity"
    using new by auto
  with True show ?thesis by simp
next
  case False
  then have len: "length (drop (length xs - nat capacity) xs) = nat capacity"
    by simp
  then have over: "int (length new) > capacity"
    using new by simp
  have "tl new = drop (Suc (length xs - nat capacity)) (xs @ [r])"
  proof (cases "nat capacity = 0")
    case True
    then show ?thesis using new by simp
  next
    case nonzero: False
    with False have "drop (length xs - nat capacity) xs \<noteq> []"
      by simp
    then have "tl new = tl (drop (length xs - nat capacity) xs) @ [r]"
      using new by simp
    also have "\<dots> = drop (Suc (length xs - nat capacity)) xs @ [r]"
      by (simp add: drop_Suc tl_drop)
    also have "\<dots> = drop (Suc (length xs - nat capacity)) (xs @ [r])"
      using False nonzero by simp
    finally show ?thesis .
  qed
  moreover have "Suc (length xs - nat capacity) = length (xs @ [r]) - nat capacity"
    using False by simp
  ultimately show ?thesis using over by simp
qed

text \<open>
  What the buffer holds after the readings \<open>hist\<close> have been inserted: under each type
  seen, the last \<open>capacity\<close> readings of that type, oldest first.
\<close>

lemma buffer_step:
  assumes inv: "\<forall>t. map_of buffer t =
        (let xs = filter (\<lambda>r. sensor_type r = t) hist
         in if xs = [] then None else Some (drop (length xs - nat capacity) xs))"
  shows "map_of (maintain_buffer_size capacity (sensor_type reading) (group_add buffer reading)) t =
        (let xs = filter (\<lambda>r. sensor_type r = t) (hist @ [reading])
         in if xs = [] then None else Some (drop (length xs - nat capacity) xs))"
proof (cases "t = sensor_type reading")
  case False
  then show ?thesis
    using inv by (simp add: maintain_buffer_size_map_of group_add_map_of Let_def)
next
  case True
  let ?xs = "filter (\<lambda>r. sensor_type r = t) hist"
  let ?new = "drop (length ?xs - nat capacity) ?xs @ [reading]"
  have old: "(case map_of buffer t of None \<Rightarrow> [reading] | Some rs \<Rightarrow> rs @ [reading]) = ?new"
    using inv by (simp add: Let_def)
  have "map_of (maintain_buffer_size capacity (sensor_type reading) (group_add buffer reading)) t
      = Some (if int (length ?new) > capacity then tl ?new else ?new)"
    using True old by (simp add: maintain_buffer_size_map_of group_add_map_of)
  also have "(if int (length ?new) > capacity then tl ?new else ?new)
      = drop (length (?xs @ [reading]) - nat capacity) (?xs @ [reading])"
    by (rule append_then_pop) simp
  finally show ?thesis using True by (simp add: Let_def)
qed

lemma add_streaming_reading_buffer:
  "\<exists>fused. add_streaming_reading self current_time reading =
     Inr (self\<lparr>reading_buffer :=
            maintain_buffer_size (buffer_size self) (sensor_type reading)
              (group_add (reading_buffer self) reading)\<rparr>, fused)"
  by (simp add: add_streaming_reading_def Let_def multi_sensor_fusion_weighted_average)

lemma add_streaming_readings_buffer:
  assumes "distinct (map fst (reading_buffer self))"
    and "\<forall>t. map_of (reading_buffer self) t =
        (let xs = filter (\<lambda>r. sensor_type r = t) hist
         in if xs = [] then None else Some (drop (length xs - nat (buffer_size self)) xs))"
  shows "\<exists>self'. add_streaming_readings self calls = Inr self' \<and>
           buffer_size self' = buffer_size self \<and>
           distinct (map fst (reading_buffer self')) \<and>
           (\<forall>t. map_of (reading_buffer self') t =
              (let xs = filter (\<lambda>r. sensor_type r = t) (hist @ map snd calls)
               in if xs = [] then None else Some (drop (length xs - nat (buffer_size self)) xs)))"
  using assms
proof (induction calls arbitrary: self hist)
  case Nil
  then show ?case by simp
next
  case (Cons call calls)
  obtain current_time reading where call: "call = (current_time, reading)"
    by (cases call)
  let ?buffer = "maintain_buffer_size (buffer_size self) (sensor_type reading)
              (group_add (reading_buffer self) reading)"
  let ?next = "self\<lparr>reading_buffer := ?buffer\<rparr>"
  obtain fused where step: "add_streaming_reading self current_time reading = Inr (?next, fused)"
    using add_streaming_reading_buffer by blast
  have d: "distinct (map fst (reading_buffer ?next))"
    using Cons.prems(1) by (simp add: maintain_buffer_size_keys group_add_keys)
  have rb: "reading_buffer ?next = ?buffer" and bs: "buffer_size ?next = buffer_size self"
    by simp_all
  have m: "\<forall>t. map_of (reading_buffer ?next) t =
        (let xs = filter (\<lambda>r. sensor_type r = t) (hist @ [reading])
         in if xs = [] then None else Some (drop (length xs - nat (buffer_size ?next)) xs))"
    unfolding rb bs by (rule allI) (rule buffer_step [OF Cons.prems(2)])
  have h: "(hist @ [reading]) @ map snd calls = hist @ map snd (call # calls)"
    by (simp add: call)
  have s: "add_streaming_readings self (call # calls) = add_streaming_readings ?next calls"
    by (simp add: call step)
  from Cons.IH [OF d m] show ?case
    unfolding h s bs .
qed

text \<open>
  C3. Starting from the empty service, after any sequence of calls of
  \<open>add_streaming_reading\<close> (none of which raises) the buffer of a sensor type exists iff a
  reading of that type was inserted, and holds the last \<open>buffer_size\<close> readings of that
  type in insertion order; so after \<open>buffer_size + k\<close> insertions of one type the first
  \<open>k\<close> have been evicted. For a capacity that is not negative no buffer holds more than
  \<open>buffer_size\<close> readings.
\<close>

theorem add_streaming_reading_bounded_fifo:
  assumes cap: "0 \<le> capacity"
  shows "\<exists>stream. add_streaming_readings (RealTimeFusion_init fid capacity) calls = Inr stream \<and>
           (\<forall>(t, rs) \<in> set (reading_buffer stream). int (length rs) \<le> capacity) \<and>
           (\<forall>t. let xs = filter (\<lambda>r. sensor_type r = t) (map snd calls)
                in map_of (reading_buffer stream) t =
                     (if xs = [] then None else Some (drop (length xs - nat capacity) xs)) \<and>
                   (\<forall>k. xs \<noteq> [] \<and> length xs = nat capacity + k \<longrightarrow>
                      map_of (reading_buffer stream) t = Some (drop k xs)))"
proof -
  let ?init = "RealTimeFusion_init fid capacity"
  have i1: "distinct (map fst (reading_buffer ?init))"
    by (simp add: RealTimeFusion_init_def)
  have i2: "\<forall>t. map_of (reading_buffer ?init) t =
        (let xs = filter (\<lambda>r. sensor_type r = t) []
         in if xs = [] then None else Some (drop (length xs - nat (buffer_size ?init)) xs))"
    by (simp add: RealTimeFusion_init_def)
  have bs: "buffer_size ?init = capacity"
    by (simp add: RealTimeFusion_init_def)
  obtain stream where run: "add_streaming_readings ?init calls = Inr stream"
    and d: "distinct (map fst (reading_buffer stream))"
    and m: "\<forall>t. map_of (reading_buffer stream) t =
              (let xs = filter (\<lambda>r. sensor_type r = t) (map snd calls)
               in if xs = [] then None else Some (drop (length xs - nat capacity) xs))"
    using add_streaming_readings_buffer [OF i1 i2, of calls]
    unfolding bs append_Nil by blast
  have bound: "int (length rs) \<le> capacity" if "(t, rs) \<in> set (reading_buffer stream)" for t rs
  proof -
    from that d have "map_of (reading_buffer stream) t = Some rs" by simp
    with m have "rs = drop (length (filter (\<lambda>r. sensor_type r = t) (map snd calls)) - nat capacity)
        (filter (\<lambda>r. sensor_type r = t) (map snd calls))"
      by (auto simp: Let_def split: if_splits)
    then have "length rs \<le> nat capacity" by simp
    with cap show ?thesis by linarith
  qed
  have "\<forall>(t, rs) \<in> set (reading_buffer stream). int (length rs) \<le> capacity"
    using bound by blast
  moreover have "\<forall>t. let xs = filter (\<lambda>r. sensor_type r = t) (map snd calls)
                in map_of (reading_buffer stream) t =
                     (if xs = [] then None else Some (drop (length xs - nat capacity) xs)) \<and>
                   (\<forall>k. xs \<noteq> [] \<and> length xs = nat capacity + k \<longrightarrow>
                      map_of (reading_buffer stream) t = Some (drop k xs))"
    using m by (auto simp: Let_def)
  ultimately show ?thesis using run by blast
qed

theorem add_streaming_reading_bounded_fifo_witness:
  "(0::int) \<le> 2 \<and>
   add_streaming_readings (RealTimeFusion_init 1 2)
     [(0, example_reading 1), (0, example_reading 2), (0, example_reading 3)] =
   Inr (RealTimeFusion_init 1 2
          \<lparr>reading_buffer := [(''soil_moisture'', [example_reading 2, example_reading 3])]\<rparr>)"
proof -
  let ?calls = "[(0, example_reading 1), (0, example_reading 2), (0::int, example_reading 3)]"
  have cap: "(0::int) \<le> 2" by simp
  obtain stream where run: "add_streaming_readings (RealTimeFusion_init 1 2) ?calls = Inr stream"
    using add_streaming_reading_bounded_fifo [OF cap, of 1 ?calls] by blast
  have "add_streaming_readings (RealTimeFusion_init 1 2) ?calls =
     Inr (RealTimeFusion_init 1 2
          \<lparr>reading_buffer := [(''soil_moisture'', [example_reading 2, example_reading 3])]\<rparr>)"
    by (simp add: add_streaming_reading_def RealTimeFusion_init_def example_reading_def Let_def
        recent_readings_def time_window_def multi_sensor_fusion_weighted_average)
  then show ?thesis by simp
qed

subsection \<open>Ingestion\<close>




subsection \<open>Spatial fusion\<close>

lemma foldl_located:
  "foldl (\<lambda>groups reading. if location reading = None then groups else group_add groups reading) g rs
     = foldl group_add g (filter (\<lambda>r. location r \<noteq> None) rs)"
  by (induction rs arbitrary: g) auto

lemma located_groups_eq:
  "located_groups readings = sensor_groups (filter (\<lambda>r. location r \<noteq> None) readings)"
  by (simp add: located_groups_def sensor_groups_def foldl_located)

lemma fuse_spatial_groups_entries:
  assumes "distinct (map fst groups)"
    and "\<forall>(t, rs)\<in>set groups. \<exists>entry. interpolate_type np rbf grid_size rs = Inr entry"
  shows "\<exists>grids. fuse_spatial_groups np rbf grid_size groups = Inr grids \<and>
           fst ` set grids \<subseteq> fst ` set groups \<and>
           (\<forall>t. map_of grids t =
              (case map_of groups t of
                 None \<Rightarrow> None
               | Some rs \<Rightarrow> (case interpolate_type np rbf grid_size rs of Inl e \<Rightarrow> None | Inr entry \<Rightarrow> entry)))"
  using assms
proof (induction groups)
  case Nil
  then show ?case by simp
next
  case (Cons g groups)
  obtain k rs where g: "g = (k, rs)" by (cases g)
  from Cons.prems g have fresh: "k \<notin> fst ` set groups" and dist: "distinct (map fst groups)"
    by auto
  from Cons.prems(2) g obtain entry where e: "interpolate_type np rbf grid_size rs = Inr entry"
    by auto
  from Cons.prems(2) have rest: "\<forall>(t, rs)\<in>set groups. \<exists>entry. interpolate_type np rbf grid_size rs = Inr entry"
    by simp
  from Cons.IH [OF dist rest] obtain grids where
    run: "fuse_spatial_groups np rbf grid_size groups = Inr grids"
    and keys: "fst ` set grids \<subseteq> fst ` set groups"
    and m: "\<forall>t. map_of grids t =
              (case map_of groups t of
                 None \<Rightarrow> None
               | Some rs \<Rightarrow> (case interpolate_type np rbf grid_size rs of Inl e \<Rightarrow> None | Inr entry \<Rightarrow> entry))"
    by blast
  from fresh keys have "k \<notin> fst ` set grids" by blast
  then have nok: "map_of grids k = None"
    by (simp add: map_of_eq_None_iff)
  show ?case
  proof (cases entry)
    case None
    then show ?thesis
      using run keys m nok e g by auto
  next
    case (Some grid)
    then show ?thesis
      using run keys m e g by auto
  qed
qed

text \<open>An exception raised before the \<open>try\<close> for one group leaves the function.\<close>

lemma fuse_spatial_groups_propagates:
  assumes "(t, rs) \<in> set groups" and "interpolate_type np rbf grid_size rs = Inl e"
  shows "\<exists>e'. fuse_spatial_groups np rbf grid_size groups = Inl e'"
  using assms by (induction groups) (auto split: sum.splits)

text \<open>With the two functions over the reals the grid is built whenever the grid size is not zero.\<close>

lemma locations_located:
  "\<forall>r\<in>set rs. location r \<noteq> None \<Longrightarrow> \<exists>ps. locations rs = Inr ps"
  by (induction rs) auto

lemma build_grid_exact_total:
  assumes "\<forall>r\<in>set rs. location r \<noteq> None" and "grid_size \<noteq> 0"
  shows "\<exists>inputs. build_grid numpy_exact grid_size rs = Inr inputs"
proof -
  obtain ps where ps: "locations rs = Inr ps"
    using locations_located [OF assms(1)] by blast
  have step: "grid_size / 111000 \<noteq> 0" using assms(2) by simp
  show ?thesis
    using step by (simp add: build_grid_def ps numpy_exact_def np_arange_def np_meshgrid_def Let_def)
qed

text \<open>
  C9, as the code has it. \<open>np.arange\<close> and \<open>np.meshgrid\<close> stand before the \<open>try\<close>, so
  what they raise leaves \<open>fuse_spatial_data\<close>. Provided they return for every sensor type
  with at least three located readings, \<open>fuse_spatial_data\<close> does not raise, whatever the
  interpolation does, and in its result: a sensor type with fewer than three located
  readings has no entry; a type whose surface fitting raises has no entry; a type with at
  least three located readings whose fitting succeeds has the fitted grid. The entry of a
  type is computed from the located readings of that type alone, so a fitting failure for
  one type leaves the grids of the others as they are.
\<close>

theorem fuse_spatial_data_localized:
  assumes built: "\<forall>t. 3 \<le> length (filter (\<lambda>r. sensor_type r = t) (filter (\<lambda>r. location r \<noteq> None) readings)) \<longrightarrow>
      (\<exists>inputs. build_grid np grid_size
          (filter (\<lambda>r. sensor_type r = t) (filter (\<lambda>r. location r \<noteq> None) readings)) = Inr inputs)"
  shows "\<exists>grids. fuse_spatial_data np rbf readings grid_size = Inr grids \<and>
     (\<forall>t. let g = filter (\<lambda>r. sensor_type r = t) (filter (\<lambda>r. location r \<noteq> None) readings)
          in (length g < 3 \<longrightarrow> map_of grids t = None) \<and>
             (\<forall>inputs e. build_grid np grid_size g = Inr inputs \<and> fit_surface rbf inputs (length g) = Inl e
                \<longrightarrow> map_of grids t = None) \<and>
             (3 \<le> length g \<longrightarrow>
                (\<exists>inputs. build_grid np grid_size g = Inr inputs \<and>
                   (\<forall>grid. fit_surface rbf inputs (length g) = Inr grid \<longrightarrow> map_of grids t = Some grid))))"
proof (cases "readings = []")
  case True
  then show ?thesis using built by (simp add: fuse_spatial_data_def)
next
  case False
  let ?located = "filter (\<lambda>r. location r \<noteq> None) readings"
  let ?groups = "sensor_groups ?located"
  have total: "\<forall>(t, rs)\<in>set ?groups. \<exists>entry. interpolate_type np rbf grid_size rs = Inr entry"
  proof (clarify)
    fix t rs assume "(t, rs) \<in> set ?groups"
    then have rs: "rs = filter (\<lambda>r. sensor_type r = t) ?located"
      by (simp add: sensor_groups_entry)
    show "\<exists>entry. interpolate_type np rbf grid_size rs = Inr entry"
    proof (cases "length rs < 3")
      case True
      then show ?thesis by (simp add: interpolate_type_def)
    next
      case False
      then have "3 \<le> length rs" by simp
      with built rs obtain inputs where "build_grid np grid_size rs = Inr inputs"
        by blast
      then show ?thesis
        by (simp add: interpolate_type_def split: sum.splits)
    qed
  qed
  obtain grids where run: "fuse_spatial_groups np rbf grid_size ?groups = Inr grids"
    and m: "\<forall>t. map_of grids t =
              (case map_of ?groups t of
                 None \<Rightarrow> None
               | Some rs \<Rightarrow> (case interpolate_type np rbf grid_size rs of Inl e \<Rightarrow> None | Inr entry \<Rightarrow> entry))"
    using fuse_spatial_groups_entries [OF sensor_groups_distinct total] by blast
  have res: "fuse_spatial_data np rbf readings grid_size = Inr grids"
    using False run by (simp add: fuse_spatial_data_def located_groups_eq)
  have "(length g < 3 \<longrightarrow> map_of grids t = None) \<and>
             (\<forall>inputs e. build_grid np grid_size g = Inr inputs \<and> fit_surface rbf inputs (length g) = Inl e
                \<longrightarrow> map_of grids t = None) \<and>
             (3 \<le> length g \<longrightarrow>
                (\<exists>inputs. build_grid np grid_size g = Inr inputs \<and>
                   (\<forall>grid. fit_surface rbf inputs (length g) = Inr grid \<longrightarrow> map_of grids t = Some grid)))"
    if g: "g = filter (\<lambda>r. sensor_type r = t) ?located" for t g
  proof (cases "g = []")
    case True
    then have "map_of ?groups t = None"
      using g by (simp add: sensor_groups_map_of)
    then have "map_of grids t = None" using m by simp
    with True show ?thesis by simp
  next
    case nonempty: False
    then have "map_of ?groups t = Some g"
      using g by (simp add: sensor_groups_map_of)
    then have at: "map_of grids t =
        (case interpolate_type np rbf grid_size g of Inl e \<Rightarrow> None | Inr entry \<Rightarrow> entry)"
      using m by simp
    show ?thesis
    proof (cases "length g < 3")
      case True
      then show ?thesis using at by (simp add: interpolate_type_def)
    next
      case False
      then have "3 \<le> length g" by simp
      with built g obtain inputs where b: "build_grid np grid_size g = Inr inputs"
        by blast
      show ?thesis
        using at b False by (auto simp: interpolate_type_def split: sum.splits)
    qed
  qed
  then show ?thesis using res by (auto simp: Let_def)
qed

theorem fuse_spatial_data_localized_witness:
  "fuse_spatial_data numpy_exact (\<lambda>inputs. if in_values inputs = [1, 2, 3] then Inl FittingError else Inr [])
     [example_reading 1\<lparr>location := Some (0, 0)\<rparr>,
      example_reading 2\<lparr>location := Some (0, 0)\<rparr>,
      example_reading 3\<lparr>location := Some (0, 0)\<rparr>,
      example_reading 4\<lparr>sensor_type := ''humidity'', location := Some (0, 0)\<rparr>,
      example_reading 5\<lparr>sensor_type := ''humidity'', location := Some (0, 0)\<rparr>,
      example_reading 6\<lparr>sensor_type := ''temperature'', location := Some (0, 0)\<rparr>,
      example_reading 7\<lparr>sensor_type := ''temperature'', location := Some (0, 0)\<rparr>,
      example_reading 8\<lparr>sensor_type := ''temperature'', location := Some (0, 0)\<rparr>] 10 =
   Inr [(''temperature'', \<lparr>grid_lat = [], grid_lon = [], grid_values = [], original_points = 3\<rparr>)]"
proof -
  let ?rbf = "\<lambda>inputs. if in_values inputs = [1, 2, 3] then Inl FittingError else Inr []"
  let ?readings = "[example_reading 1\<lparr>location := Some (0, 0)\<rparr>,
      example_reading 2\<lparr>location := Some (0, 0)\<rparr>,
      example_reading 3\<lparr>location := Some (0, 0)\<rparr>,
      example_reading 4\<lparr>sensor_type := ''humidity'', location := Some (0, 0)\<rparr>,
      example_reading 5\<lparr>sensor_type := ''humidity'', location := Some (0, 0)\<rparr>,
      example_reading 6\<lparr>sensor_type := ''temperature'', location := Some (0, 0)\<rparr>,
      example_reading 7\<lparr>sensor_type := ''temperature'', location := Some (0, 0)\<rparr>,
      example_reading 8\<lparr>sensor_type := ''temperature'', location := Some (0, 0)\<rparr>]"
  have built: "\<forall>t. 3 \<le> length (filter (\<lambda>r. sensor_type r = t) (filter (\<lambda>r. location r \<noteq> None) ?readings)) \<longrightarrow>
      (\<exists>inputs. build_grid numpy_exact 10
          (filter (\<lambda>r. sensor_type r = t) (filter (\<lambda>r. location r \<noteq> None) ?readings)) = Inr inputs)"
  proof (intro allI impI)
    fix t
    show "\<exists>inputs. build_grid numpy_exact 10
          (filter (\<lambda>r. sensor_type r = t) (filter (\<lambda>r. location r \<noteq> None) ?readings)) = Inr inputs"
      by (rule build_grid_exact_total) simp_all
  qed
  obtain grids where run: "fuse_spatial_data numpy_exact ?rbf ?readings 10 = Inr grids"
    and soil: "map_of grids ''soil_moisture'' = None"
    and hum: "map_of grids ''humidity'' = None"
  proof -
    from fuse_spatial_data_localized [OF built, of ?rbf] obtain grids where
      run: "fuse_spatial_data numpy_exact ?rbf ?readings 10 = Inr grids"
      and each: "\<forall>t. let g = filter (\<lambda>r. sensor_type r = t) (filter (\<lambda>r. location r \<noteq> None) ?readings)
          in (length g < 3 \<longrightarrow> map_of grids t = None) \<and>
             (\<forall>inputs e. build_grid numpy_exact 10 g = Inr inputs \<and> fit_surface ?rbf inputs (length g) = Inl e
                \<longrightarrow> map_of grids t = None) \<and>
             (3 \<le> length g \<longrightarrow>
                (\<exists>inputs. build_grid numpy_exact 10 g = Inr inputs \<and>
                   (\<forall>grid. fit_surface ?rbf inputs (length g) = Inr grid \<longrightarrow> map_of grids t = Some grid)))"
      by blast
    have "map_of grids ''humidity'' = None"
      using each [rule_format, of "''humidity''"] by (simp add: example_reading_def Let_def)
    moreover have "map_of grids ''soil_moisture'' = None"
      using each [rule_format, of "''soil_moisture''"]
      by (simp add: example_reading_def Let_def build_grid_def numpy_exact_def np_arange_def
          np_meshgrid_def fit_surface_def)
    ultimately show ?thesis using run that by blast
  qed
  have "fuse_spatial_data numpy_exact ?rbf ?readings 10 =
      Inr [(''temperature'', \<lparr>grid_lat = [], grid_lon = [], grid_values = [], original_points = 3\<rparr>)]"
    by (simp add: fuse_spatial_data_def located_groups_def interpolate_type_def build_grid_def
        fit_surface_def numpy_exact_def np_arange_def np_meshgrid_def example_reading_def Let_def)
  with run show ?thesis by simp
qed

text \<open>
  The claim as the specification words it fails at a grid size of zero. Three located
  readings of one type stand beside a type with a single located reading; the step of
  \<open>np.arange\<close> is zero, the exception is raised before the \<open>try\<close>, and the call raises
  instead of returning a result without the two types.
\<close>

theorem fuse_spatial_data_zero_grid_size_counterexample:
  "fuse_spatial_data numpy_exact (\<lambda>inputs. Inr [])
     [example_reading 1\<lparr>location := Some (0, 0)\<rparr>,
      example_reading 2\<lparr>location := Some (1, 0)\<rparr>,
      example_reading 3\<lparr>location := Some (0, 1)\<rparr>,
      example_reading 4\<lparr>sensor_type := ''humidity'', location := Some (0, 0)\<rparr>] 0
   = Inl ZeroDivisionError"
  by (simp add: fuse_spatial_data_def located_groups_def interpolate_type_def build_grid_def
      numpy_exact_def np_arange_def example_reading_def Let_def)

end
